theory Spec2Isabelle
  imports Main
begin

section \<open>The \<open>vpc key create\<close> command of capibmadm\<close>

text \<open>
  A shallow embedding of \<^verbatim>\<open>cmd/capibmadm/cmd/vpc/key/create.go\<close>: the command's
  \<^verbatim>\<open>PreRunE\<close> and \<^verbatim>\<open>RunE\<close> closures and the function \<^verbatim>\<open>createKey\<close>.
  Everything the command calls outside that file (the file system, the line scanner, the
  SSH parser, the VPC client, the account and resource-group lookups) is a parameter,
  gathered in the record \<open>env\<close>. Every call that leaves the process, and the log line,
  is appended to a trace of events, which is threaded through the functions as state.
\<close>

subsection \<open>Errors\<close>

text \<open>
  A Go \<^verbatim>\<open>error\<close> value. \<^verbatim>\<open>fmt.Errorf\<close> without \<^verbatim>\<open>%w\<close> gives a plain message;
  with \<^verbatim>\<open>%w\<close> it gives an error that carries the formatted message and the wrapped
  error. A nil error is \<open>None\<close> of \<open>error option\<close>.
\<close>

datatype error = ErrorString string | WrapError string error

fun Error :: "error \<Rightarrow> string" where
  "Error (ErrorString s) = s"
| "Error (WrapError msg err) = msg"

fun Unwrap :: "error \<Rightarrow> error option" where
  "Unwrap (ErrorString s) = None"
| "Unwrap (WrapError msg err) = Some err"

text \<open>\<^verbatim>\<open>fmt.Errorf(pre + "%w" + suf, err)\<close>.\<close>

definition Errorf_w :: "string \<Rightarrow> string \<Rightarrow> error \<Rightarrow> error" where
  "Errorf_w pre suf err = WrapError (pre @ Error err @ suf) err"

subsection \<open>Data\<close>

text \<open>\<^verbatim>\<open>type keyCreateOptions struct\<close>.\<close>

record keyCreateOptions =
  name :: string
  publicKey :: string
  resourceGroupName :: string

text \<open>
  \<^verbatim>\<open>vpcv1.ResourceGroupIdentity\<close>, \<^verbatim>\<open>vpcv1.CreateKeyOptions\<close> and \<^verbatim>\<open>vpcv1.Key\<close>, with
  the fields the command touches. The fields are pointers in Go: \<open>None\<close> is nil.
\<close>

record ResourceGroupIdentity =
  ID :: "string option"

record CreateKeyOptions =
  Name :: "string option"
  PublicKey :: "string option"
  ResourceGroup :: "ResourceGroupIdentity option"

record Key =
  Key_Name :: "string option"

text \<open>
  \<^verbatim>\<open>options.GlobalOptions\<close>, with the one field that the command reads:
  \<^verbatim>\<open>options.GlobalOptions.VPCRegion\<close>.
\<close>

record options =
  VPCRegion :: string

text \<open>
  An opened key file, as the command sees it through \<^verbatim>\<open>bufio.NewScanner\<close>:
  \<open>scan_tokens\<close> are the lines that the successive calls of \<^verbatim>\<open>Scan()\<close> deliver through
  \<^verbatim>\<open>Text()\<close> (each line without its end-of-line marker; a line may be empty), and
  \<open>scan_err\<close> is what \<^verbatim>\<open>Err()\<close> would report once \<^verbatim>\<open>Scan()\<close> has returned false:
  \<open>None\<close> after a clean end of file, the read error otherwise. A file is finite, so
  the scanner delivers finitely many lines and the scan loop ends; a path that names an
  endless stream is outside this model.
\<close>

record os_File =
  scan_tokens :: "string list"
  scan_err :: "error option"

text \<open>The VPC client: its method \<^verbatim>\<open>CreateKey\<close> returns a key pointer and an error.\<close>

record V1Client =
  CreateKey :: "CreateKeyOptions \<Rightarrow> Key option \<times> error option"

text \<open>The collaborators of the command.\<close>

record env =
  os_Open :: "string \<Rightarrow> error + os_File"
  ssh_ParseAuthorizedKey :: "string \<Rightarrow> error option"
  vpc_NewV1Client :: "string \<Rightarrow> error + V1Client"
  utils_GetAccountID :: "error + string"
  utils_GetResourceGroupID :: "string \<Rightarrow> string \<Rightarrow> error + string"

text \<open>What the command does to the outside, in the order it does it.\<close>

datatype event =
    Call_os_Open string
  | Call_Close string
  | Call_ParseAuthorizedKey string
  | Call_NewV1Client string
  | Call_GetAccountID
  | Call_GetResourceGroupID string string
  | Call_CreateKey CreateKeyOptions
  | Log_Info string "(string \<times> string) list"

text \<open>
  How a Go function of result type \<^verbatim>\<open>error\<close> ends: it returns (nil is \<open>None\<close>), or it
  panics (here: a nil pointer is dereferenced).
\<close>

datatype outcome = Return "error option" | Panic

subsection \<open>\<^verbatim>\<open>PreRunE\<close>\<close>

definition PreRunE :: "keyCreateOptions \<Rightarrow> string \<Rightarrow> error option" where
  "PreRunE keyCreateOption filePath =
     (if (publicKey keyCreateOption = '''') = (filePath = '''')
      then Some (ErrorString
        ''the required flags either key-path of vpc key or the public-key within double quotation marks is not found'')
      else None)"

subsection \<open>\<^verbatim>\<open>createKey\<close>\<close>

text \<open>The setters of \<^verbatim>\<open>vpcv1.CreateKeyOptions\<close>; the options start with every field nil.\<close>

definition new_CreateKeyOptions :: CreateKeyOptions where
  "new_CreateKeyOptions = \<lparr>Name = None, PublicKey = None, ResourceGroup = None\<rparr>"

definition SetName :: "string \<Rightarrow> CreateKeyOptions \<Rightarrow> CreateKeyOptions" where
  "SetName n opts = opts\<lparr>Name := Some n\<rparr>"

definition SetPublicKey :: "string \<Rightarrow> CreateKeyOptions \<Rightarrow> CreateKeyOptions" where
  "SetPublicKey k opts = opts\<lparr>PublicKey := Some k\<rparr>"

definition SetResourceGroup :: "ResourceGroupIdentity \<Rightarrow> CreateKeyOptions \<Rightarrow> CreateKeyOptions" where
  "SetResourceGroup rg opts = opts\<lparr>ResourceGroup := Some rg\<rparr>"

text \<open>
  The end of \<^verbatim>\<open>createKey\<close>, from the call of \<^verbatim>\<open>vpcClient.CreateKey\<close> on. When the call
  returns no error, the argument \<^verbatim>\<open>*key.Name\<close> of \<^verbatim>\<open>log.Info\<close> is evaluated: a nil
  \<^verbatim>\<open>key\<close> or a nil \<^verbatim>\<open>key.Name\<close> panics before anything is logged.
\<close>

definition createKey_call :: "V1Client \<Rightarrow> CreateKeyOptions \<Rightarrow> event list \<Rightarrow> outcome \<times> event list" where
  "createKey_call vpcClient opts tr =
     (let tr = tr @ [Call_CreateKey opts] in
      case CreateKey vpcClient opts of
        (key, None) \<Rightarrow>
          (case key of
             None \<Rightarrow> (Panic, tr)
           | Some k \<Rightarrow>
               (case Key_Name k of
                  None \<Rightarrow> (Panic, tr)
                | Some n \<Rightarrow>
                    (Return None,
                     tr @ [Log_Info ''VPC Key created successfully,'' [(''key-name'', n)]])))
      | (key, Some err) \<Rightarrow> (Return (Some err), tr))"

definition createKey :: "env \<Rightarrow> options \<Rightarrow> keyCreateOptions \<Rightarrow> event list \<Rightarrow> outcome \<times> event list" where
  "createKey e GlobalOptions keyCreateOption tr =
     (let tr = tr @ [Call_NewV1Client (VPCRegion GlobalOptions)] in
      case vpc_NewV1Client e (VPCRegion GlobalOptions) of
        Inl err \<Rightarrow> (Return (Some err), tr)
      | Inr vpcClient \<Rightarrow>
          (let tr = tr @ [Call_GetAccountID] in
           case utils_GetAccountID e of
             Inl err \<Rightarrow> (Return (Some err), tr)
           | Inr accountID \<Rightarrow>
               (let opts = SetPublicKey (publicKey keyCreateOption)
                             (SetName (name keyCreateOption) new_CreateKeyOptions) in
                if resourceGroupName keyCreateOption \<noteq> '''' then
                  (let tr = tr @ [Call_GetResourceGroupID (resourceGroupName keyCreateOption) accountID] in
                   case utils_GetResourceGroupID e (resourceGroupName keyCreateOption) accountID of
                     Inl err \<Rightarrow> (Return (Some err), tr)
                   | Inr resourceGroupID \<Rightarrow>
                       createKey_call vpcClient
                         (SetResourceGroup \<lparr>ID = Some resourceGroupID\<rparr> opts) tr)
                else createKey_call vpcClient opts tr)))"

subsection \<open>\<^verbatim>\<open>RunE\<close>\<close>

text \<open>
  The scan loop \<^verbatim>\<open>for publicKeyScanner.Scan() { keyCreateOption.publicKey = publicKeyScanner.Text() }\<close>:
  every line delivered overwrites the public key. The scanner's error is not looked at.
\<close>

fun scan_loop :: "string list \<Rightarrow> keyCreateOptions \<Rightarrow> keyCreateOptions" where
  "scan_loop [] keyCreateOption = keyCreateOption"
| "scan_loop (text # rest) keyCreateOption = scan_loop rest (keyCreateOption\<lparr>publicKey := text\<rparr>)"

text \<open>The end of \<^verbatim>\<open>RunE\<close>, from the call of \<^verbatim>\<open>ssh.ParseAuthorizedKey\<close> on.\<close>

definition RunE_validate_create :: "env \<Rightarrow> options \<Rightarrow> keyCreateOptions \<Rightarrow> event list \<Rightarrow> outcome \<times> event list" where
  "RunE_validate_create e GlobalOptions keyCreateOption tr =
     (let tr = tr @ [Call_ParseAuthorizedKey (publicKey keyCreateOption)] in
      case ssh_ParseAuthorizedKey e (publicKey keyCreateOption) of
        Some err \<Rightarrow> (Return (Some (Errorf_w ''the provided VPC key is invalid. '' '' '' err)), tr)
      | None \<Rightarrow> createKey e GlobalOptions keyCreateOption tr)"

text \<open>
  \<^verbatim>\<open>RunE\<close>. The deferred \<^verbatim>\<open>publicKeyFile.Close()\<close> runs when the function is left,
  whether it returns or panics, so its event ends the trace whenever the file was opened.
\<close>

definition RunE :: "env \<Rightarrow> options \<Rightarrow> keyCreateOptions \<Rightarrow> string \<Rightarrow> outcome \<times> event list" where
  "RunE e GlobalOptions keyCreateOption filePath =
     (if filePath \<noteq> '''' then
        (case os_Open e filePath of
           Inl err \<Rightarrow> (Return (Some (Errorf_w ''unable to open file. '' '''' err)), [Call_os_Open filePath])
         | Inr publicKeyFile \<Rightarrow>
             (case RunE_validate_create e GlobalOptions
                     (scan_loop (scan_tokens publicKeyFile) keyCreateOption) [Call_os_Open filePath] of
                (res, tr) \<Rightarrow> (res, tr @ [Call_Close filePath])))
      else RunE_validate_create e GlobalOptions keyCreateOption [])"

subsection \<open>Running the command\<close>

text \<open>
  cobra runs \<^verbatim>\<open>PreRunE\<close> first and runs \<^verbatim>\<open>RunE\<close> only when \<^verbatim>\<open>PreRunE\<close> returned nil;
  an error of \<^verbatim>\<open>PreRunE\<close> is the command's error.
\<close>

definition cobra_execute :: "env \<Rightarrow> options \<Rightarrow> keyCreateOptions \<Rightarrow> string \<Rightarrow> outcome \<times> event list" where
  "cobra_execute e GlobalOptions keyCreateOption filePath =
     (case PreRunE keyCreateOption filePath of
        Some err \<Rightarrow> (Return (Some err), [])
      | None \<Rightarrow> RunE e GlobalOptions keyCreateOption filePath)"

text \<open>
  Modelled from the spec: the common flags, which \<^verbatim>\<open>options.AddCommonFlags\<close> registers;
  that function is not among the sources. After the spec, and after the example in the
  command's own help text, they are the region and \<^verbatim>\<open>--resource-group-name\<close>. They are
  the last two fields of the record below. \<^verbatim>\<open>options.AddCommonFlags\<close> is called before
  \<^verbatim>\<open>keyCreateOption\<close> is declared and receives only the command, so it cannot store
  anything in \<^verbatim>\<open>keyCreateOption\<close>; the region is read back from
  \<^verbatim>\<open>options.GlobalOptions.VPCRegion\<close>.

  The first three fields are the flags that \<^verbatim>\<open>CreateCommand\<close> registers itself:
  \<^verbatim>\<open>--name\<close>, bound to \<^verbatim>\<open>keyCreateOption.name\<close>, \<^verbatim>\<open>--key-path\<close>, bound to
  \<^verbatim>\<open>filePath\<close>, and \<^verbatim>\<open>--public-key\<close>, bound to \<^verbatim>\<open>keyCreateOption.publicKey\<close>.
\<close>

record flags =
  flag_name :: string
  flag_key_path :: string
  flag_public_key :: string
  flag_region :: string
  flag_resource_group_name :: string

text \<open>
  \<^verbatim>\<open>CreateCommand\<close>, run on parsed flags. \<^verbatim>\<open>var keyCreateOption keyCreateOptions\<close> gives
  every field the empty string; no flag is bound to \<^verbatim>\<open>keyCreateOption.resourceGroupName\<close>
  and nothing assigns it, so it is still empty when \<^verbatim>\<open>RunE\<close> passes the struct on.
\<close>

definition CreateCommand :: "env \<Rightarrow> flags \<Rightarrow> outcome \<times> event list" where
  "CreateCommand e fl =
     cobra_execute e
       \<lparr>VPCRegion = flag_region fl\<rparr>
       \<lparr>name = flag_name fl, publicKey = flag_public_key fl, resourceGroupName = ''''\<rparr>
       (flag_key_path fl)"

subsection \<open>Reading a trace\<close>

definition is_remote_call :: "event \<Rightarrow> bool" where
  "is_remote_call ev =
     (case ev of
        Call_NewV1Client r \<Rightarrow> True
      | Call_GetAccountID \<Rightarrow> True
      | Call_GetResourceGroupID n a \<Rightarrow> True
      | Call_CreateKey opts \<Rightarrow> True
      | _ \<Rightarrow> False)"

definition is_log :: "event \<Rightarrow> bool" where
  "is_log ev = (case ev of Log_Info msg kv \<Rightarrow> True | _ \<Rightarrow> False)"

text \<open>
  The spec's wording for the key taken from a file, ``the last non-empty line'', over the
  lines of the file. It is not part of the code: it is here to be compared with what
  \<open>scan_loop\<close> leaves in \<^verbatim>\<open>keyCreateOption.publicKey\<close>.
\<close>

definition last_nonempty_line :: "string list \<Rightarrow> string" where
  "last_nonempty_line ts = last (filter (\<lambda>l. l \<noteq> '''') ts)"

subsection \<open>A concrete environment\<close>

text \<open>
  One world to run the command in. Three key files exist: \<^verbatim>\<open>/id.pub\<close> holds the key on
  one line; \<^verbatim>\<open>/blank.pub\<close> holds the key followed by an empty line (the bytes of the key,
  a newline, and one more newline); reading \<^verbatim>\<open>/torn.pub\<close> fails after the key line and
  the first six bytes of a second line. The SSH parser accepts exactly the line
  \<^verbatim>\<open>ssh-ed25519 AAAA\<close>.
  A client exists for every region but the empty one; in \<^verbatim>\<open>us-south\<close> it creates the
  key and answers with the key's name, in \<^verbatim>\<open>eu-de\<close> it answers with a key that has no
  name, anywhere else it fails. The only resource group is \<^verbatim>\<open>default\<close>.
\<close>

definition demo_id_file :: os_File where
  "demo_id_file = \<lparr>scan_tokens = [''ssh-ed25519 AAAA''], scan_err = None\<rparr>"

definition demo_blank_file :: os_File where
  "demo_blank_file = \<lparr>scan_tokens = [''ssh-ed25519 AAAA'', ''''], scan_err = None\<rparr>"

definition demo_torn_file :: os_File where
  "demo_torn_file =
     \<lparr>scan_tokens = [''ssh-ed25519 AAAA'', ''ssh-ed''],
      scan_err = Some (ErrorString ''read /torn.pub: input/output error'')\<rparr>"

definition demo_client :: "string \<Rightarrow> V1Client" where
  "demo_client region =
     \<lparr>CreateKey = (\<lambda>opts.
        if region = ''us-south'' then (Some \<lparr>Key_Name = Name opts\<rparr>, None)
        else if region = ''eu-de'' then (Some \<lparr>Key_Name = None\<rparr>, None)
        else (None, Some (ErrorString ''quota exceeded'')))\<rparr>"

definition demo_env :: env where
  "demo_env =
     \<lparr>os_Open = (\<lambda>p.
        if p = ''/id.pub'' then Inr demo_id_file
        else if p = ''/blank.pub'' then Inr demo_blank_file
        else if p = ''/torn.pub'' then Inr demo_torn_file
        else Inl (ErrorString ''no such file or directory'')),
      ssh_ParseAuthorizedKey = (\<lambda>s.
        if s = ''ssh-ed25519 AAAA'' then None else Some (ErrorString ''ssh: no key found'')),
      vpc_NewV1Client = (\<lambda>r.
        if r = '''' then Inl (ErrorString ''region is required'') else Inr (demo_client r)),
      utils_GetAccountID = Inr ''acct-1'',
      utils_GetResourceGroupID = (\<lambda>n a.
        if n = ''default'' then Inr ''rg-1'' else Inl (ErrorString ''resource group not found''))\<rparr>"

text \<open>The same world with credentials that the account lookup refuses.\<close>

definition demo_env_unauthorized :: env where
  "demo_env_unauthorized = demo_env\<lparr>utils_GetAccountID := Inl (ErrorString ''unauthorized'')\<rparr>"

definition demo_options :: "string \<Rightarrow> options" where
  "demo_options region = \<lparr>VPCRegion = region\<rparr>"

text \<open>The command's variables after \<^verbatim>\<open>--name foo --public-key "ssh-ed25519 AAAA"\<close>.\<close>

definition demo_inline :: keyCreateOptions where
  "demo_inline = \<lparr>name = ''foo'', publicKey = ''ssh-ed25519 AAAA'', resourceGroupName = ''''\<rparr>"

text \<open>The command's variables after \<^verbatim>\<open>--name foo --key-path ...\<close>.\<close>

definition demo_from_file :: keyCreateOptions where
  "demo_from_file = \<lparr>name = ''foo'', publicKey = '''', resourceGroupName = ''''\<rparr>"

text \<open>The struct that \<^verbatim>\<open>createKey\<close> would get if a resource-group name reached it.\<close>

definition demo_in_group :: "string \<Rightarrow> keyCreateOptions" where
  "demo_in_group rg = \<lparr>name = ''foo'', publicKey = ''ssh-ed25519 AAAA'', resourceGroupName = rg\<rparr>"

section \<open>Properties\<close>

subsection \<open>Unfolding and evaluation\<close>

lemmas run_defs = cobra_execute_def RunE_def RunE_validate_create_def createKey_def
  createKey_call_def PreRunE_def Errorf_w_def SetName_def SetPublicKey_def SetResourceGroup_def
  new_CreateKeyOptions_def Let_def

lemmas demo_defs = demo_env_def demo_env_unauthorized_def demo_client_def demo_options_def
  demo_inline_def demo_from_file_def demo_in_group_def demo_id_file_def demo_blank_file_def
  demo_torn_file_def

lemma Error_Errorf_w: "Error (Errorf_w pre suf err) = pre @ Error err @ suf"
  by (simp add: Errorf_w_def)

lemma Unwrap_Errorf_w: "Unwrap (Errorf_w pre suf err) = Some err"
  by (simp add: Errorf_w_def)

text \<open>The scan loop keeps the last line delivered, and the flag's value when there is none.\<close>

lemma scan_loop_last:
  "scan_loop ts kco = (if ts = [] then kco else kco\<lparr>publicKey := last ts\<rparr>)"
  by (induction ts arbitrary: kco) auto

lemma scan_loop_publicKey:
  "publicKey (scan_loop ts kco) = (if ts = [] then publicKey kco else last ts)"
  by (simp add: scan_loop_last)

text \<open>\<^verbatim>\<open>createKey\<close> and the end of \<^verbatim>\<open>RunE\<close> do not touch the file system.\<close>

lemma createKey_os_Open:
  "createKey (e\<lparr>os_Open := opn\<rparr>) g kco tr = createKey e g kco tr"
  by (simp add: createKey_def Let_def split: sum.splits)

lemma RunE_validate_create_os_Open:
  "RunE_validate_create (e\<lparr>os_Open := opn\<rparr>) g kco tr = RunE_validate_create e g kco tr"
  by (simp add: RunE_validate_create_def createKey_os_Open Let_def split: option.splits)

lemma RunE_opened:
  assumes "fp \<noteq> ''''" and "os_Open e fp = Inr f"
  shows "RunE e g kco fp =
     (case RunE_validate_create e g (scan_loop (scan_tokens f) kco) [Call_os_Open fp] of
        (res, tr) \<Rightarrow> (res, tr @ [Call_Close fp]))"
  using assms by (simp add: RunE_def)

lemma RunE_validate_create_parse:
  "RunE_validate_create e g kco tr = (res, tr') \<Longrightarrow>
     Call_ParseAuthorizedKey s \<in> set tr' \<longleftrightarrow> (Call_ParseAuthorizedKey s \<in> set tr \<or> s = publicKey kco)"
  by (auto simp: RunE_validate_create_def createKey_def createKey_call_def Let_def
      split: if_splits sum.splits option.splits prod.splits)

text \<open>Runs of the command in the concrete environment.\<close>

lemma run_inline_ok:
  "cobra_execute demo_env (demo_options ''us-south'') demo_inline '''' =
     (Return None,
      [Call_ParseAuthorizedKey ''ssh-ed25519 AAAA'', Call_NewV1Client ''us-south'', Call_GetAccountID,
       Call_CreateKey \<lparr>Name = Some ''foo'', PublicKey = Some ''ssh-ed25519 AAAA'', ResourceGroup = None\<rparr>,
       Log_Info ''VPC Key created successfully,'' [(''key-name'', ''foo'')]])"
  by (simp add: run_defs demo_defs)

lemma run_in_group_ok:
  "cobra_execute demo_env (demo_options ''us-south'') (demo_in_group ''default'') '''' =
     (Return None,
      [Call_ParseAuthorizedKey ''ssh-ed25519 AAAA'', Call_NewV1Client ''us-south'', Call_GetAccountID,
       Call_GetResourceGroupID ''default'' ''acct-1'',
       Call_CreateKey \<lparr>Name = Some ''foo'', PublicKey = Some ''ssh-ed25519 AAAA'',
         ResourceGroup = Some \<lparr>ID = Some ''rg-1''\<rparr>\<rparr>,
       Log_Info ''VPC Key created successfully,'' [(''key-name'', ''foo'')]])"
  by (simp add: run_defs demo_defs)

lemma run_in_group_unknown:
  "cobra_execute demo_env (demo_options ''us-south'') (demo_in_group ''nope'') '''' =
     (Return (Some (ErrorString ''resource group not found'')),
      [Call_ParseAuthorizedKey ''ssh-ed25519 AAAA'', Call_NewV1Client ''us-south'', Call_GetAccountID,
       Call_GetResourceGroupID ''nope'' ''acct-1''])"
  by (simp add: run_defs demo_defs)

lemma run_no_region:
  "cobra_execute demo_env (demo_options '''') demo_inline '''' =
     (Return (Some (ErrorString ''region is required'')),
      [Call_ParseAuthorizedKey ''ssh-ed25519 AAAA'', Call_NewV1Client ''''])"
  by (simp add: run_defs demo_defs)

lemma run_unauthorized:
  "cobra_execute demo_env_unauthorized (demo_options ''us-south'') demo_inline '''' =
     (Return (Some (ErrorString ''unauthorized'')),
      [Call_ParseAuthorizedKey ''ssh-ed25519 AAAA'', Call_NewV1Client ''us-south'', Call_GetAccountID])"
  by (simp add: run_defs demo_defs)

lemma run_quota:
  "cobra_execute demo_env (demo_options ''jp-tok'') demo_inline '''' =
     (Return (Some (ErrorString ''quota exceeded'')),
      [Call_ParseAuthorizedKey ''ssh-ed25519 AAAA'', Call_NewV1Client ''jp-tok'', Call_GetAccountID,
       Call_CreateKey \<lparr>Name = Some ''foo'', PublicKey = Some ''ssh-ed25519 AAAA'', ResourceGroup = None\<rparr>])"
  by (simp add: run_defs demo_defs)

lemma run_nameless_key:
  "cobra_execute demo_env (demo_options ''eu-de'') demo_inline '''' =
     (Panic,
      [Call_ParseAuthorizedKey ''ssh-ed25519 AAAA'', Call_NewV1Client ''eu-de'', Call_GetAccountID,
       Call_CreateKey \<lparr>Name = Some ''foo'', PublicKey = Some ''ssh-ed25519 AAAA'', ResourceGroup = None\<rparr>])"
  by (simp add: run_defs demo_defs)

lemma run_not_a_key:
  "cobra_execute demo_env (demo_options ''us-south'') (demo_inline\<lparr>publicKey := ''not-a-key''\<rparr>) '''' =
     (Return (Some (WrapError ''the provided VPC key is invalid. ssh: no key found ''
                      (ErrorString ''ssh: no key found''))),
      [Call_ParseAuthorizedKey ''not-a-key''])"
  by (simp add: run_defs demo_defs)

lemma run_missing_file:
  "cobra_execute demo_env (demo_options ''us-south'') demo_from_file ''/none.pub'' =
     (Return (Some (WrapError ''unable to open file. no such file or directory''
                      (ErrorString ''no such file or directory''))),
      [Call_os_Open ''/none.pub''])"
  by (simp add: run_defs demo_defs)

lemma RunE_inline_ok:
  "RunE demo_env (demo_options ''us-south'') demo_inline '''' =
     (Return None,
      [Call_ParseAuthorizedKey ''ssh-ed25519 AAAA'', Call_NewV1Client ''us-south'', Call_GetAccountID,
       Call_CreateKey \<lparr>Name = Some ''foo'', PublicKey = Some ''ssh-ed25519 AAAA'', ResourceGroup = None\<rparr>,
       Log_Info ''VPC Key created successfully,'' [(''key-name'', ''foo'')]])"
  by (simp add: run_defs demo_defs)

lemma RunE_id_file_ok:
  "RunE demo_env (demo_options ''us-south'') demo_from_file ''/id.pub'' =
     (Return None,
      [Call_os_Open ''/id.pub'', Call_ParseAuthorizedKey ''ssh-ed25519 AAAA'',
       Call_NewV1Client ''us-south'', Call_GetAccountID,
       Call_CreateKey \<lparr>Name = Some ''foo'', PublicKey = Some ''ssh-ed25519 AAAA'', ResourceGroup = None\<rparr>,
       Log_Info ''VPC Key created successfully,'' [(''key-name'', ''foo'')],
       Call_Close ''/id.pub''])"
  by (simp add: run_defs demo_defs)

lemma RunE_id_file_nameless_key:
  "RunE demo_env (demo_options ''eu-de'') demo_from_file ''/id.pub'' =
     (Panic,
      [Call_os_Open ''/id.pub'', Call_ParseAuthorizedKey ''ssh-ed25519 AAAA'',
       Call_NewV1Client ''eu-de'', Call_GetAccountID,
       Call_CreateKey \<lparr>Name = Some ''foo'', PublicKey = Some ''ssh-ed25519 AAAA'', ResourceGroup = None\<rparr>,
       Call_Close ''/id.pub''])"
  by (simp add: run_defs demo_defs)

lemma RunE_blank_file:
  "RunE demo_env (demo_options ''us-south'') demo_from_file ''/blank.pub'' =
     (Return (Some (WrapError ''the provided VPC key is invalid. ssh: no key found ''
                      (ErrorString ''ssh: no key found''))),
      [Call_os_Open ''/blank.pub'', Call_ParseAuthorizedKey '''', Call_Close ''/blank.pub''])"
  by (simp add: run_defs demo_defs)

lemma RunE_torn_file:
  "RunE demo_env (demo_options ''us-south'') demo_from_file ''/torn.pub'' =
     (Return (Some (WrapError ''the provided VPC key is invalid. ssh: no key found ''
                      (ErrorString ''ssh: no key found''))),
      [Call_os_Open ''/torn.pub'', Call_ParseAuthorizedKey ''ssh-ed'', Call_Close ''/torn.pub''])"
  by (simp add: run_defs demo_defs)

subsection \<open>Which string is the public key\<close>

text \<open>
  Claim C1, as amended. Whatever \<^verbatim>\<open>RunE\<close> returns: when \<^verbatim>\<open>--key-path\<close> is empty, the
  string handed to \<^verbatim>\<open>ssh.ParseAuthorizedKey\<close>, and the public key of every create-key
  request, is the value of \<^verbatim>\<open>--public-key\<close>; when \<^verbatim>\<open>--key-path\<close> names a file that opens
  and from which the scanner delivers at least one line, it is the last line delivered,
  which is the empty string when that line is empty.
\<close>

theorem C1_public_key_is_last_scanned_line:
  assumes "RunE e g kco fp = (res, tr)"
  shows "(fp = '''' \<longrightarrow>
            Call_ParseAuthorizedKey (publicKey kco) \<in> set tr
          \<and> (\<forall>s. Call_ParseAuthorizedKey s \<in> set tr \<longrightarrow> s = publicKey kco)
          \<and> (\<forall>opts. Call_CreateKey opts \<in> set tr \<longrightarrow> PublicKey opts = Some (publicKey kco)))
     \<and> (\<forall>f. fp \<noteq> '''' \<and> os_Open e fp = Inr f \<and> scan_tokens f \<noteq> [] \<longrightarrow>
            Call_ParseAuthorizedKey (last (scan_tokens f)) \<in> set tr
          \<and> (\<forall>s. Call_ParseAuthorizedKey s \<in> set tr \<longrightarrow> s = last (scan_tokens f))
          \<and> (\<forall>opts. Call_CreateKey opts \<in> set tr \<longrightarrow> PublicKey opts = Some (last (scan_tokens f))))"
  using assms
  by (auto simp: run_defs scan_loop_last split: if_splits sum.splits option.splits prod.splits)

theorem C1_public_key_is_last_scanned_line_witness:
  "os_Open demo_env ''/id.pub'' = Inr demo_id_file
   \<and> scan_tokens demo_id_file \<noteq> []
   \<and> Call_ParseAuthorizedKey (last (scan_tokens demo_id_file))
        \<in> set (snd (RunE demo_env (demo_options ''us-south'') demo_from_file ''/id.pub''))
   \<and> Call_CreateKey \<lparr>Name = Some ''foo'', PublicKey = Some (last (scan_tokens demo_id_file)),
        ResourceGroup = None\<rparr>
        \<in> set (snd (RunE demo_env (demo_options ''us-south'') demo_from_file ''/id.pub''))
   \<and> os_Open demo_env ''/blank.pub'' = Inr demo_blank_file
   \<and> scan_tokens demo_blank_file \<noteq> []
   \<and> last (scan_tokens demo_blank_file) = ''''
   \<and> Call_ParseAuthorizedKey (last (scan_tokens demo_blank_file))
        \<in> set (snd (RunE demo_env (demo_options ''us-south'') demo_from_file ''/blank.pub''))
   \<and> Call_ParseAuthorizedKey (publicKey demo_inline)
        \<in> set (snd (RunE demo_env (demo_options ''us-south'') demo_inline ''''))"
  using C1_public_key_is_last_scanned_line [OF RunE_id_file_ok]
    C1_public_key_is_last_scanned_line [OF RunE_blank_file]
    C1_public_key_is_last_scanned_line [OF RunE_inline_ok]
  unfolding RunE_id_file_ok RunE_blank_file RunE_inline_ok
  by (simp add: demo_defs)

text \<open>
  Claim C1 as stated fails. The file \<^verbatim>\<open>/blank.pub\<close> has a non-empty line, the key, and
  its last non-empty line is the key; the scanner delivers the key and then the empty
  line, so the string handed to \<^verbatim>\<open>ssh.ParseAuthorizedKey\<close> is the empty string, not the
  key, and the command ends with the error of an invalid key.
\<close>

theorem C1_last_nonempty_line_counterexample:
  "os_Open demo_env ''/blank.pub'' = Inr demo_blank_file
   \<and> ''ssh-ed25519 AAAA'' \<in> set (scan_tokens demo_blank_file)
   \<and> last_nonempty_line (scan_tokens demo_blank_file) = ''ssh-ed25519 AAAA''
   \<and> Call_ParseAuthorizedKey (last_nonempty_line (scan_tokens demo_blank_file))
        \<notin> set (snd (RunE demo_env (demo_options ''us-south'') demo_from_file ''/blank.pub''))
   \<and> Call_ParseAuthorizedKey ''''
        \<in> set (snd (RunE demo_env (demo_options ''us-south'') demo_from_file ''/blank.pub''))
   \<and> fst (RunE demo_env (demo_options ''us-south'') demo_from_file ''/blank.pub'') =
        Return (Some (WrapError ''the provided VPC key is invalid. ssh: no key found ''
                        (ErrorString ''ssh: no key found'')))"
  unfolding RunE_blank_file
  by (simp add: last_nonempty_line_def demo_defs)

subsection \<open>The check before the run\<close>

text \<open>
  Claim C2. When \<^verbatim>\<open>--public-key\<close> and \<^verbatim>\<open>--key-path\<close> are both empty or both non-empty,
  \<^verbatim>\<open>PreRunE\<close> returns an error, the command returns that error, and its trace is empty:
  no file was opened and no collaborator was called. When exactly one of the two is
  non-empty, \<^verbatim>\<open>PreRunE\<close> returns nil.
\<close>

theorem C2_exactly_one_key_source:
  "(((publicKey kco = '''' \<and> fp = '''') \<or> (publicKey kco \<noteq> '''' \<and> fp \<noteq> ''''))
     \<longrightarrow> (\<exists>err. PreRunE kco fp = Some err \<and> cobra_execute e g kco fp = (Return (Some err), [])))
   \<and> (((publicKey kco \<noteq> '''' \<and> fp = '''') \<or> (publicKey kco = '''' \<and> fp \<noteq> ''''))
     \<longrightarrow> PreRunE kco fp = None)"
  by (auto simp: PreRunE_def cobra_execute_def)

theorem C2_exactly_one_key_source_witness:
  "publicKey demo_from_file = ''''
   \<and> (\<exists>err. PreRunE demo_from_file '''' = Some err
        \<and> cobra_execute demo_env (demo_options ''us-south'') demo_from_file '''' = (Return (Some err), []))
   \<and> publicKey demo_inline \<noteq> ''''
   \<and> (\<exists>err. PreRunE demo_inline ''/id.pub'' = Some err
        \<and> cobra_execute demo_env (demo_options ''us-south'') demo_inline ''/id.pub'' = (Return (Some err), []))
   \<and> PreRunE demo_inline '''' = None
   \<and> PreRunE demo_from_file ''/id.pub'' = None"
  using C2_exactly_one_key_source [of demo_from_file "''''" demo_env "demo_options ''us-south''"]
    C2_exactly_one_key_source [of demo_inline "''/id.pub''" demo_env "demo_options ''us-south''"]
    C2_exactly_one_key_source [of demo_inline "''''"]
    C2_exactly_one_key_source [of demo_from_file "''/id.pub''"]
  by (simp add: demo_defs)

subsection \<open>A key that does not parse\<close>

text \<open>
  Claim C3. When the string handed to \<^verbatim>\<open>ssh.ParseAuthorizedKey\<close> does not parse, the
  command returns an error that wraps the parser's error and whose message is
  \<^verbatim>\<open>the provided VPC key is invalid. \<close>, the parser's message, and a space; and no event
  of the trace is a remote call: no client was constructed, no account or resource group
  was looked up, no key was created.
\<close>

theorem C3_invalid_key_wrapped_no_remote_call:
  assumes "cobra_execute e g kco fp = (res, tr)"
    and "Call_ParseAuthorizedKey s \<in> set tr"
    and "ssh_ParseAuthorizedKey e s = Some perr"
  shows "(\<exists>werr. res = Return (Some werr) \<and> Unwrap werr = Some perr
            \<and> Error werr = ''the provided VPC key is invalid. '' @ Error perr @ '' '')
     \<and> (\<forall>ev \<in> set tr. \<not> is_remote_call ev)"
  using assms
  by (auto simp: run_defs is_remote_call_def split: if_splits sum.splits option.splits prod.splits)

theorem C3_invalid_key_wrapped_no_remote_call_witness:
  "Call_ParseAuthorizedKey ''not-a-key''
     \<in> set (snd (cobra_execute demo_env (demo_options ''us-south'')
                   (demo_inline\<lparr>publicKey := ''not-a-key''\<rparr>) ''''))
   \<and> ssh_ParseAuthorizedKey demo_env ''not-a-key'' = Some (ErrorString ''ssh: no key found'')
   \<and> (\<exists>werr. fst (cobra_execute demo_env (demo_options ''us-south'')
                   (demo_inline\<lparr>publicKey := ''not-a-key''\<rparr>) '''') = Return (Some werr)
        \<and> Unwrap werr = Some (ErrorString ''ssh: no key found'')
        \<and> Error werr = ''the provided VPC key is invalid. ssh: no key found '')
   \<and> \<not> list_ex is_remote_call
         (snd (cobra_execute demo_env (demo_options ''us-south'')
                   (demo_inline\<lparr>publicKey := ''not-a-key''\<rparr>) ''''))"
  using C3_invalid_key_wrapped_no_remote_call [OF run_not_a_key,
      of "''not-a-key''" "ErrorString ''ssh: no key found''"]
  unfolding run_not_a_key
  by (simp add: demo_env_def is_remote_call_def)

subsection \<open>Nothing is created after a failure\<close>

text \<open>
  Claim C4. In every run of the command: when the construction of the VPC client, the
  account lookup or the resource-group lookup (made when the resource-group name that
  \<^verbatim>\<open>createKey\<close> receives is non-empty) is called and returns an error, the command
  returns that very error and no create-key call is in the trace; and a create-key call
  is in the trace only when the client was constructed, the account was found and, for a
  non-empty resource-group name, the group was found.
\<close>

theorem C4_create_key_only_after_success:
  assumes "cobra_execute e g kco fp = (res, tr)"
  shows "(\<forall>err. Call_NewV1Client (VPCRegion g) \<in> set tr \<and> vpc_NewV1Client e (VPCRegion g) = Inl err
            \<longrightarrow> res = Return (Some err) \<and> (\<forall>opts. Call_CreateKey opts \<notin> set tr))
     \<and> (\<forall>err. Call_GetAccountID \<in> set tr \<and> utils_GetAccountID e = Inl err
            \<longrightarrow> res = Return (Some err) \<and> (\<forall>opts. Call_CreateKey opts \<notin> set tr))
     \<and> (\<forall>a err. resourceGroupName kco \<noteq> '''' \<and> Call_GetResourceGroupID (resourceGroupName kco) a \<in> set tr
              \<and> utils_GetResourceGroupID e (resourceGroupName kco) a = Inl err
            \<longrightarrow> res = Return (Some err) \<and> (\<forall>opts. Call_CreateKey opts \<notin> set tr))
     \<and> (\<forall>opts. Call_CreateKey opts \<in> set tr
            \<longrightarrow> (\<exists>c a. vpc_NewV1Client e (VPCRegion g) = Inr c \<and> utils_GetAccountID e = Inr a
                  \<and> (resourceGroupName kco \<noteq> '''' \<longrightarrow>
                       (\<exists>i. utils_GetResourceGroupID e (resourceGroupName kco) a = Inr i))))"
  using assms
  by (auto simp: run_defs scan_loop_last split: if_splits sum.splits option.splits prod.splits)

theorem C4_create_key_only_after_success_witness:
  "vpc_NewV1Client demo_env '''' = Inl (ErrorString ''region is required'')
   \<and> cobra_execute demo_env (demo_options '''') demo_inline '''' =
       (Return (Some (ErrorString ''region is required'')),
        [Call_ParseAuthorizedKey ''ssh-ed25519 AAAA'', Call_NewV1Client ''''])
   \<and> utils_GetAccountID demo_env_unauthorized = Inl (ErrorString ''unauthorized'')
   \<and> fst (cobra_execute demo_env_unauthorized (demo_options ''us-south'') demo_inline '''') =
       Return (Some (ErrorString ''unauthorized''))
   \<and> \<not> list_ex (\<lambda>ev. \<exists>opts. ev = Call_CreateKey opts)
         (snd (cobra_execute demo_env_unauthorized (demo_options ''us-south'') demo_inline ''''))
   \<and> utils_GetResourceGroupID demo_env ''nope'' ''acct-1'' = Inl (ErrorString ''resource group not found'')
   \<and> fst (cobra_execute demo_env (demo_options ''us-south'') (demo_in_group ''nope'') '''') =
       Return (Some (ErrorString ''resource group not found''))
   \<and> \<not> list_ex (\<lambda>ev. \<exists>opts. ev = Call_CreateKey opts)
         (snd (cobra_execute demo_env (demo_options ''us-south'') (demo_in_group ''nope'') ''''))
   \<and> (\<exists>opts. Call_CreateKey opts
         \<in> set (snd (cobra_execute demo_env (demo_options ''us-south'') (demo_in_group ''default'') '''')))
   \<and> (\<exists>i. utils_GetResourceGroupID demo_env ''default'' ''acct-1'' = Inr i)"
  using C4_create_key_only_after_success [OF run_no_region]
    C4_create_key_only_after_success [OF run_unauthorized]
    C4_create_key_only_after_success [OF run_in_group_unknown]
    C4_create_key_only_after_success [OF run_in_group_ok]
  unfolding run_no_region run_unauthorized run_in_group_unknown run_in_group_ok
  by (simp add: demo_defs)

subsection \<open>The create-key request\<close>

text \<open>
  What \<^verbatim>\<open>createKey\<close> sends: the name and the public key of the struct it receives, and
  a resource group exactly when the struct's resource-group name is non-empty.
\<close>

lemma createKey_request:
  assumes "createKey e g kco [] = (res, tr)" and "Call_CreateKey opts \<in> set tr"
  shows "Name opts = Some (name kco) \<and> PublicKey opts = Some (publicKey kco)
     \<and> (resourceGroupName kco = '''' \<longrightarrow> ResourceGroup opts = None)
     \<and> (resourceGroupName kco \<noteq> '''' \<longrightarrow>
          (\<exists>a i. utils_GetAccountID e = Inr a
             \<and> utils_GetResourceGroupID e (resourceGroupName kco) a = Inr i
             \<and> ResourceGroup opts = Some \<lparr>ID = Some i\<rparr>))"
  using assms
  by (auto simp: run_defs split: if_splits sum.splits option.splits prod.splits)

text \<open>
  The command never fills that field of the struct: whatever the flags are, it looks no
  resource group up, and a request it sends carries the name and the key and no
  resource group.
\<close>

lemma CreateCommand_request:
  assumes "CreateCommand e fl = (res, tr)"
  shows "(\<forall>n a. Call_GetResourceGroupID n a \<notin> set tr)
     \<and> (\<forall>opts. Call_CreateKey opts \<in> set tr \<longrightarrow>
           Name opts = Some (flag_name fl) \<and> ResourceGroup opts = None)"
  using assms
  by (auto simp: CreateCommand_def run_defs scan_loop_last
      split: if_splits sum.splits option.splits prod.splits)

text \<open>
  Claim C5 fails on the code for a non-empty \<^verbatim>\<open>--resource-group-name\<close>. The command
  line of the command's own example,
  \<^verbatim>\<open>--name foo --region us-south --resource-group-name default --public-key "ssh-ed25519 AAAA"\<close>,
  in a world where the group \<^verbatim>\<open>default\<close> resolves to \<^verbatim>\<open>rg-1\<close>: the command succeeds, the
  request has the name and the key, no resource group is looked up, and the request has
  no resource group.
\<close>

theorem C5_resource_group_flag_not_passed_on:
  "CreateCommand demo_env
     \<lparr>flag_name = ''foo'', flag_key_path = '''', flag_public_key = ''ssh-ed25519 AAAA'',
      flag_region = ''us-south'', flag_resource_group_name = ''default''\<rparr> =
     (Return None,
      [Call_ParseAuthorizedKey ''ssh-ed25519 AAAA'', Call_NewV1Client ''us-south'', Call_GetAccountID,
       Call_CreateKey \<lparr>Name = Some ''foo'', PublicKey = Some ''ssh-ed25519 AAAA'', ResourceGroup = None\<rparr>,
       Log_Info ''VPC Key created successfully,'' [(''key-name'', ''foo'')]])"
  by (simp add: CreateCommand_def run_defs demo_defs)

subsection \<open>Success and failure\<close>

text \<open>
  Claim C6. In every run of the command: when the create-key call is reached and returns
  no error and a key named \<open>n\<close>, the command returns nil and the trace has exactly one
  log line, \<^verbatim>\<open>VPC Key created successfully,\<close> with \<^verbatim>\<open>key-name\<close> \<open>n\<close>; the command
  returns nil only in that case; when the pre-run check fails, or a step that was called
  returned an error, the command returns a non-nil error; and whenever the command does
  not return nil, the trace has no log line.
\<close>

theorem C6_success_logged_once_failure_not:
  assumes "cobra_execute e g kco fp = (res, tr)"
  shows "(\<forall>opts c k n. Call_CreateKey opts \<in> set tr \<and> vpc_NewV1Client e (VPCRegion g) = Inr c
              \<and> CreateKey c opts = (Some k, None) \<and> Key_Name k = Some n
            \<longrightarrow> res = Return None
              \<and> filter is_log tr = [Log_Info ''VPC Key created successfully,'' [(''key-name'', n)]])
     \<and> (res = Return None \<longrightarrow>
           (\<exists>opts c k n. Call_CreateKey opts \<in> set tr \<and> vpc_NewV1Client e (VPCRegion g) = Inr c
              \<and> CreateKey c opts = (Some k, None) \<and> Key_Name k = Some n
              \<and> filter is_log tr = [Log_Info ''VPC Key created successfully,'' [(''key-name'', n)]]))
     \<and> (PreRunE kco fp \<noteq> None
          \<or> (Call_os_Open fp \<in> set tr \<and> isl (os_Open e fp))
          \<or> (\<exists>s. Call_ParseAuthorizedKey s \<in> set tr \<and> ssh_ParseAuthorizedKey e s \<noteq> None)
          \<or> (Call_NewV1Client (VPCRegion g) \<in> set tr \<and> isl (vpc_NewV1Client e (VPCRegion g)))
          \<or> (Call_GetAccountID \<in> set tr \<and> isl (utils_GetAccountID e))
          \<or> (\<exists>n a. Call_GetResourceGroupID n a \<in> set tr \<and> isl (utils_GetResourceGroupID e n a))
          \<or> (\<exists>opts c. Call_CreateKey opts \<in> set tr \<and> vpc_NewV1Client e (VPCRegion g) = Inr c
                \<and> snd (CreateKey c opts) \<noteq> None)
        \<longrightarrow> (\<exists>err. res = Return (Some err)))
     \<and> (res \<noteq> Return None \<longrightarrow> filter is_log tr = [])"
  using assms
  by (auto simp: run_defs is_log_def scan_loop_last split: if_splits sum.splits option.splits prod.splits)

theorem C6_success_logged_once_failure_not_witness:
  "Call_CreateKey \<lparr>Name = Some ''foo'', PublicKey = Some ''ssh-ed25519 AAAA'', ResourceGroup = None\<rparr>
     \<in> set (snd (cobra_execute demo_env (demo_options ''us-south'') demo_inline ''''))
   \<and> vpc_NewV1Client demo_env ''us-south'' = Inr (demo_client ''us-south'')
   \<and> CreateKey (demo_client ''us-south'')
        \<lparr>Name = Some ''foo'', PublicKey = Some ''ssh-ed25519 AAAA'', ResourceGroup = None\<rparr> =
        (Some \<lparr>Key_Name = Some ''foo''\<rparr>, None)
   \<and> fst (cobra_execute demo_env (demo_options ''us-south'') demo_inline '''') = Return None
   \<and> filter is_log (snd (cobra_execute demo_env (demo_options ''us-south'') demo_inline '''')) =
        [Log_Info ''VPC Key created successfully,'' [(''key-name'', ''foo'')]]
   \<and> snd (CreateKey (demo_client ''jp-tok'')
        \<lparr>Name = Some ''foo'', PublicKey = Some ''ssh-ed25519 AAAA'', ResourceGroup = None\<rparr>) \<noteq> None
   \<and> fst (cobra_execute demo_env (demo_options ''jp-tok'') demo_inline '''') =
        Return (Some (ErrorString ''quota exceeded''))
   \<and> filter is_log (snd (cobra_execute demo_env (demo_options ''jp-tok'') demo_inline '''')) = []"
  using C6_success_logged_once_failure_not [OF run_inline_ok]
    C6_success_logged_once_failure_not [OF run_quota]
  unfolding run_inline_ok run_quota
  by (simp add: demo_defs is_log_def)

subsection \<open>Which errors are wrapped\<close>

text \<open>
  Claim C7. In every run of the command: an error of \<^verbatim>\<open>os.Open\<close> comes back wrapped,
  with the message \<^verbatim>\<open>unable to open file. \<close> before its own; an error of
  \<^verbatim>\<open>ssh.ParseAuthorizedKey\<close> comes back wrapped, with
  \<^verbatim>\<open>the provided VPC key is invalid. \<close> before its own message; an error of the client
  construction, of the account lookup, of the resource-group lookup or of the create-key
  call comes back as it is. And an error that the command returns is the error of the
  pre-run check or one of these six, so no other stage wraps.
\<close>

theorem C7_two_stages_wrap_collaborators_verbatim:
  assumes "cobra_execute e g kco fp = (res, tr)"
  shows "(\<forall>err. Call_os_Open fp \<in> set tr \<and> os_Open e fp = Inl err
            \<longrightarrow> res = Return (Some (WrapError (''unable to open file. '' @ Error err) err)))
     \<and> (\<forall>s err. Call_ParseAuthorizedKey s \<in> set tr \<and> ssh_ParseAuthorizedKey e s = Some err
            \<longrightarrow> res = Return (Some (WrapError (''the provided VPC key is invalid. '' @ Error err @ '' '') err)))
     \<and> (\<forall>err. Call_NewV1Client (VPCRegion g) \<in> set tr \<and> vpc_NewV1Client e (VPCRegion g) = Inl err
            \<longrightarrow> res = Return (Some err))
     \<and> (\<forall>err. Call_GetAccountID \<in> set tr \<and> utils_GetAccountID e = Inl err
            \<longrightarrow> res = Return (Some err))
     \<and> (\<forall>n a err. Call_GetResourceGroupID n a \<in> set tr \<and> utils_GetResourceGroupID e n a = Inl err
            \<longrightarrow> res = Return (Some err))
     \<and> (\<forall>opts c k err. Call_CreateKey opts \<in> set tr \<and> vpc_NewV1Client e (VPCRegion g) = Inr c
              \<and> CreateKey c opts = (k, Some err)
            \<longrightarrow> res = Return (Some err))
     \<and> (\<forall>err. res = Return (Some err) \<longrightarrow>
            PreRunE kco fp = Some err
          \<or> (\<exists>e0. os_Open e fp = Inl e0 \<and> err = WrapError (''unable to open file. '' @ Error e0) e0)
          \<or> (\<exists>s e0. ssh_ParseAuthorizedKey e s = Some e0
                \<and> err = WrapError (''the provided VPC key is invalid. '' @ Error e0 @ '' '') e0)
          \<or> vpc_NewV1Client e (VPCRegion g) = Inl err
          \<or> utils_GetAccountID e = Inl err
          \<or> (\<exists>a. utils_GetResourceGroupID e (resourceGroupName kco) a = Inl err)
          \<or> (\<exists>opts c k. vpc_NewV1Client e (VPCRegion g) = Inr c \<and> CreateKey c opts = (k, Some err)))"
  using assms
  by (auto simp: run_defs scan_loop_last split: if_splits sum.splits option.splits prod.splits)

theorem C7_two_stages_wrap_collaborators_verbatim_witness:
  "os_Open demo_env ''/none.pub'' = Inl (ErrorString ''no such file or directory'')
   \<and> fst (cobra_execute demo_env (demo_options ''us-south'') demo_from_file ''/none.pub'') =
       Return (Some (WrapError ''unable to open file. no such file or directory''
                       (ErrorString ''no such file or directory'')))
   \<and> ssh_ParseAuthorizedKey demo_env ''not-a-key'' = Some (ErrorString ''ssh: no key found'')
   \<and> fst (cobra_execute demo_env (demo_options ''us-south'')
             (demo_inline\<lparr>publicKey := ''not-a-key''\<rparr>) '''') =
       Return (Some (WrapError ''the provided VPC key is invalid. ssh: no key found ''
                       (ErrorString ''ssh: no key found'')))
   \<and> vpc_NewV1Client demo_env '''' = Inl (ErrorString ''region is required'')
   \<and> fst (cobra_execute demo_env (demo_options '''') demo_inline '''') =
       Return (Some (ErrorString ''region is required''))
   \<and> utils_GetAccountID demo_env_unauthorized = Inl (ErrorString ''unauthorized'')
   \<and> fst (cobra_execute demo_env_unauthorized (demo_options ''us-south'') demo_inline '''') =
       Return (Some (ErrorString ''unauthorized''))
   \<and> utils_GetResourceGroupID demo_env ''nope'' ''acct-1'' = Inl (ErrorString ''resource group not found'')
   \<and> fst (cobra_execute demo_env (demo_options ''us-south'') (demo_in_group ''nope'') '''') =
       Return (Some (ErrorString ''resource group not found''))
   \<and> CreateKey (demo_client ''jp-tok'')
        \<lparr>Name = Some ''foo'', PublicKey = Some ''ssh-ed25519 AAAA'', ResourceGroup = None\<rparr> =
       (None, Some (ErrorString ''quota exceeded''))
   \<and> fst (cobra_execute demo_env (demo_options ''jp-tok'') demo_inline '''') =
       Return (Some (ErrorString ''quota exceeded''))"
  using C7_two_stages_wrap_collaborators_verbatim [OF run_missing_file]
    C7_two_stages_wrap_collaborators_verbatim [OF run_not_a_key]
    C7_two_stages_wrap_collaborators_verbatim [OF run_no_region]
    C7_two_stages_wrap_collaborators_verbatim [OF run_unauthorized]
    C7_two_stages_wrap_collaborators_verbatim [OF run_in_group_unknown]
    C7_two_stages_wrap_collaborators_verbatim [OF run_quota]
  unfolding run_missing_file run_not_a_key run_no_region run_unauthorized run_in_group_unknown run_quota
  by (simp add: demo_defs)

subsection \<open>The key file is closed\<close>

text \<open>
  Claim C8. Whenever \<^verbatim>\<open>RunE\<close> opened the key file, however it ends (with nil, with an
  error, or with a panic), its trace starts with the opening of the file, ends with the
  closing of the file, and closes the file once; and \<^verbatim>\<open>RunE\<close> closes nothing but the
  file that it opened.
\<close>

theorem C8_opened_file_is_closed:
  assumes "RunE e g kco fp = (res, tr)"
  shows "(\<forall>f. fp \<noteq> '''' \<and> os_Open e fp = Inr f \<longrightarrow>
            tr \<noteq> [] \<and> hd tr = Call_os_Open fp \<and> last tr = Call_Close fp
          \<and> count_list tr (Call_Close fp) = 1)
     \<and> (\<forall>p. Call_Close p \<in> set tr \<longrightarrow> p = fp \<and> fp \<noteq> '''' \<and> (\<exists>f. os_Open e fp = Inr f))"
  using assms
  by (auto simp: run_defs scan_loop_last split: if_splits sum.splits option.splits prod.splits)

theorem C8_opened_file_is_closed_witness:
  "os_Open demo_env ''/blank.pub'' = Inr demo_blank_file
   \<and> fst (RunE demo_env (demo_options ''us-south'') demo_from_file ''/blank.pub'') =
       Return (Some (WrapError ''the provided VPC key is invalid. ssh: no key found ''
                       (ErrorString ''ssh: no key found'')))
   \<and> last (snd (RunE demo_env (demo_options ''us-south'') demo_from_file ''/blank.pub'')) =
       Call_Close ''/blank.pub''
   \<and> os_Open demo_env ''/id.pub'' = Inr demo_id_file
   \<and> fst (RunE demo_env (demo_options ''eu-de'') demo_from_file ''/id.pub'') = Panic
   \<and> last (snd (RunE demo_env (demo_options ''eu-de'') demo_from_file ''/id.pub'')) =
       Call_Close ''/id.pub''
   \<and> fst (RunE demo_env (demo_options ''us-south'') demo_from_file ''/id.pub'') = Return None
   \<and> last (snd (RunE demo_env (demo_options ''us-south'') demo_from_file ''/id.pub'')) =
       Call_Close ''/id.pub''
   \<and> count_list (snd (RunE demo_env (demo_options ''us-south'') demo_from_file ''/id.pub''))
       (Call_Close ''/id.pub'') = 1"
proof -
  have blank: "''/blank.pub'' \<noteq> '''' \<and> os_Open demo_env ''/blank.pub'' = Inr demo_blank_file"
    by (simp add: demo_env_def)
  have ident: "''/id.pub'' \<noteq> '''' \<and> os_Open demo_env ''/id.pub'' = Inr demo_id_file"
    by (simp add: demo_env_def)
  note failed = C8_opened_file_is_closed [OF RunE_blank_file, THEN conjunct1, rule_format, OF blank]
  note panicked = C8_opened_file_is_closed [OF RunE_id_file_nameless_key, THEN conjunct1, rule_format, OF ident]
  note succeeded = C8_opened_file_is_closed [OF RunE_id_file_ok, THEN conjunct1, rule_format, OF ident]
  from blank ident failed panicked succeeded show ?thesis
    by (simp only: RunE_blank_file RunE_id_file_nameless_key RunE_id_file_ok fst_conv snd_conv simp_thms)
qed

subsection \<open>A created key without a name\<close>

text \<open>
  Claim C9. In every run of the command: when the create-key call is reached and returns
  no error together with a nil key or a key whose name is nil, the command panics; it
  panics in no other case; and when the command returns nil, the create-key call has
  returned a key with a name.
\<close>

theorem C9_nameless_key_panics:
  assumes "cobra_execute e g kco fp = (res, tr)"
  shows "(\<forall>opts c key. Call_CreateKey opts \<in> set tr \<and> vpc_NewV1Client e (VPCRegion g) = Inr c
              \<and> CreateKey c opts = (key, None)
              \<and> (key = None \<or> (\<exists>k. key = Some k \<and> Key_Name k = None))
            \<longrightarrow> res = Panic)
     \<and> (res = Panic \<longrightarrow>
           (\<exists>opts c key. Call_CreateKey opts \<in> set tr \<and> vpc_NewV1Client e (VPCRegion g) = Inr c
              \<and> CreateKey c opts = (key, None)
              \<and> (key = None \<or> (\<exists>k. key = Some k \<and> Key_Name k = None))))
     \<and> (res = Return None \<longrightarrow>
           (\<exists>opts c k n. Call_CreateKey opts \<in> set tr \<and> vpc_NewV1Client e (VPCRegion g) = Inr c
              \<and> CreateKey c opts = (Some k, None) \<and> Key_Name k = Some n))"
  using assms
  by (auto simp: run_defs scan_loop_last split: if_splits sum.splits option.splits prod.splits)

theorem C9_nameless_key_panics_witness:
  "Call_CreateKey \<lparr>Name = Some ''foo'', PublicKey = Some ''ssh-ed25519 AAAA'', ResourceGroup = None\<rparr>
     \<in> set (snd (cobra_execute demo_env (demo_options ''eu-de'') demo_inline ''''))
   \<and> vpc_NewV1Client demo_env ''eu-de'' = Inr (demo_client ''eu-de'')
   \<and> CreateKey (demo_client ''eu-de'')
        \<lparr>Name = Some ''foo'', PublicKey = Some ''ssh-ed25519 AAAA'', ResourceGroup = None\<rparr> =
       (Some \<lparr>Key_Name = None\<rparr>, None)
   \<and> fst (cobra_execute demo_env (demo_options ''eu-de'') demo_inline '''') = Panic
   \<and> fst (cobra_execute demo_env (demo_options ''us-south'') demo_inline '''') = Return None
   \<and> CreateKey (demo_client ''us-south'')
        \<lparr>Name = Some ''foo'', PublicKey = Some ''ssh-ed25519 AAAA'', ResourceGroup = None\<rparr> =
       (Some \<lparr>Key_Name = Some ''foo''\<rparr>, None)"
  using C9_nameless_key_panics [OF run_nameless_key] C9_nameless_key_panics [OF run_inline_ok]
  unfolding run_nameless_key run_inline_ok
  by (simp add: demo_defs)

subsection \<open>A read error is not looked at\<close>

text \<open>
  Claim C10. When the key file opens and reading it fails on the way, \<^verbatim>\<open>RunE\<close> does
  exactly what it does for a file that delivers the same lines and ends cleanly, so the
  read error is not among its results; and the string it hands to
  \<^verbatim>\<open>ssh.ParseAuthorizedKey\<close> is the last line delivered before the failure, or the value
  of \<^verbatim>\<open>--public-key\<close> (empty when the pre-run check passed) when no line was delivered.
\<close>

theorem C10_read_error_ignored:
  assumes "fp \<noteq> ''''" and "os_Open e fp = Inr f" and "scan_err f = Some rerr"
  shows "RunE e g kco fp = RunE (e\<lparr>os_Open := (os_Open e)(fp := Inr (f\<lparr>scan_err := None\<rparr>))\<rparr>) g kco fp
     \<and> Call_ParseAuthorizedKey (if scan_tokens f = [] then publicKey kco else last (scan_tokens f))
          \<in> set (snd (RunE e g kco fp))
     \<and> (\<forall>s. Call_ParseAuthorizedKey s \<in> set (snd (RunE e g kco fp)) \<longrightarrow>
           s = (if scan_tokens f = [] then publicKey kco else last (scan_tokens f)))"
proof -
  let ?e' = "e\<lparr>os_Open := (os_Open e)(fp := Inr (f\<lparr>scan_err := None\<rparr>))\<rparr>"
  let ?k = "scan_loop (scan_tokens f) kco"
  have "os_Open ?e' fp = Inr (f\<lparr>scan_err := None\<rparr>)" by simp
  from RunE_opened [OF assms(1) this]
  have same: "RunE ?e' g kco fp = RunE e g kco fp"
    by (simp add: RunE_opened [OF assms(1,2)] RunE_validate_create_os_Open)
  obtain res tr where rt: "RunE_validate_create e g ?k [Call_os_Open fp] = (res, tr)"
    by (cases "RunE_validate_create e g ?k [Call_os_Open fp]")
  have "snd (RunE e g kco fp) = tr @ [Call_Close fp]"
    by (simp add: RunE_opened [OF assms(1,2)] rt)
  then have "\<And>s. Call_ParseAuthorizedKey s \<in> set (snd (RunE e g kco fp)) \<longleftrightarrow> s = publicKey ?k"
    using RunE_validate_create_parse [OF rt] by simp
  then have "\<And>s. Call_ParseAuthorizedKey s \<in> set (snd (RunE e g kco fp))
      \<longleftrightarrow> s = (if scan_tokens f = [] then publicKey kco else last (scan_tokens f))"
    by (simp only: scan_loop_publicKey)
  with same show ?thesis by simp
qed

theorem C10_read_error_ignored_witness:
  "os_Open demo_env ''/torn.pub'' = Inr demo_torn_file
   \<and> scan_err demo_torn_file = Some (ErrorString ''read /torn.pub: input/output error'')
   \<and> RunE demo_env (demo_options ''us-south'') demo_from_file ''/torn.pub'' =
       RunE (demo_env\<lparr>os_Open := (os_Open demo_env)
               (''/torn.pub'' := Inr (demo_torn_file\<lparr>scan_err := None\<rparr>))\<rparr>)
         (demo_options ''us-south'') demo_from_file ''/torn.pub''
   \<and> Call_ParseAuthorizedKey ''ssh-ed''
       \<in> set (snd (RunE demo_env (demo_options ''us-south'') demo_from_file ''/torn.pub''))
   \<and> fst (RunE demo_env (demo_options ''us-south'') demo_from_file ''/torn.pub'') =
       Return (Some (WrapError ''the provided VPC key is invalid. ssh: no key found ''
                       (ErrorString ''ssh: no key found'')))"
proof -
  have opened: "os_Open demo_env ''/torn.pub'' = Inr demo_torn_file"
    by (simp add: demo_env_def)
  have failed: "scan_err demo_torn_file = Some (ErrorString ''read /torn.pub: input/output error'')"
    by (simp add: demo_torn_file_def)
  have last_line: "(if scan_tokens demo_torn_file = [] then publicKey demo_from_file
      else last (scan_tokens demo_torn_file)) = ''ssh-ed''"
    by (simp add: demo_torn_file_def)
  have "''/torn.pub'' \<noteq> ''''" by simp
  note ignored = C10_read_error_ignored [OF this opened failed,
      of "demo_options ''us-south''" demo_from_file, unfolded last_line]
  have "fst (RunE demo_env (demo_options ''us-south'') demo_from_file ''/torn.pub'') =
       Return (Some (WrapError ''the provided VPC key is invalid. ssh: no key found ''
                       (ErrorString ''ssh: no key found'')))"
    by (simp only: RunE_torn_file fst_conv)
  moreover from ignored
  have "RunE demo_env (demo_options ''us-south'') demo_from_file ''/torn.pub'' =
       RunE (demo_env\<lparr>os_Open := (os_Open demo_env)
               (''/torn.pub'' := Inr (demo_torn_file\<lparr>scan_err := None\<rparr>))\<rparr>)
         (demo_options ''us-south'') demo_from_file ''/torn.pub''"
    by (rule conjunct1)
  moreover from ignored
  have "Call_ParseAuthorizedKey ''ssh-ed''
       \<in> set (snd (RunE demo_env (demo_options ''us-south'') demo_from_file ''/torn.pub''))"
    by (rule conjunct2 [THEN conjunct1])
  moreover note opened failed
  ultimately show ?thesis
    by (intro conjI)
qed

end
